theory Spec2Isabelle
  imports Complex_Main
begin

section \<open>The value model of a C \<^verbatim>\<open>double\<close>\<close>

text \<open>
  A \<^verbatim>\<open>double\<close> is either a finite number, one of the two infinities, or NaN.
  The arithmetic on the special values is the one of IEEE 754 / C99 Annex F
  (\<^verbatim>\<open>x/0\<close> is an infinity, \<^verbatim>\<open>0/0\<close>, \<^verbatim>\<open>inf - inf\<close> and \<^verbatim>\<open>0 * inf\<close> are NaN, every
  comparison with NaN is false).  On finite values the arithmetic is exact: rounding,
  overflow and underflow are not part of the model, and zero carries no sign (a zero
  divisor counts as \<^verbatim>\<open>+0\<close>).  The constant \<^verbatim>\<open>M_PI\<close> is the number \<open>pi\<close>.
\<close>

datatype double = Fin real | PInf | NInf | NaN

instantiation double :: "{plus, uminus, minus, times, inverse, ord, abs}"
begin

fun uminus_double :: "double \<Rightarrow> double" where
  "- Fin x = Fin (- x)"
| "- PInf = NInf"
| "- NInf = PInf"
| "- NaN = NaN"

fun plus_double :: "double \<Rightarrow> double \<Rightarrow> double" where
  "Fin x + Fin y = Fin (x + y)"
| "NaN + _ = NaN"
| "_ + NaN = NaN"
| "PInf + NInf = NaN"
| "NInf + PInf = NaN"
| "PInf + _ = PInf"
| "_ + PInf = PInf"
| "NInf + _ = NInf"
| "_ + NInf = NInf"

definition minus_double :: "double \<Rightarrow> double \<Rightarrow> double" where
  "(x :: double) - y = x + (- y)"

fun times_double :: "double \<Rightarrow> double \<Rightarrow> double" where
  "Fin x * Fin y = Fin (x * y)"
| "NaN * _ = NaN"
| "_ * NaN = NaN"
| "PInf * Fin y = (if y = 0 then NaN else if 0 < y then PInf else NInf)"
| "NInf * Fin y = (if y = 0 then NaN else if 0 < y then NInf else PInf)"
| "Fin x * PInf = (if x = 0 then NaN else if 0 < x then PInf else NInf)"
| "Fin x * NInf = (if x = 0 then NaN else if 0 < x then NInf else PInf)"
| "PInf * PInf = PInf"
| "PInf * NInf = NInf"
| "NInf * PInf = NInf"
| "NInf * NInf = PInf"

fun divide_double :: "double \<Rightarrow> double \<Rightarrow> double" where
  "divide_double (Fin x) (Fin y) =
     (if y \<noteq> 0 then Fin (x / y)
      else if x = 0 then NaN else if 0 < x then PInf else NInf)"
| "divide_double NaN _ = NaN"
| "divide_double _ NaN = NaN"
| "divide_double (Fin x) PInf = Fin 0"
| "divide_double (Fin x) NInf = Fin 0"
| "divide_double PInf (Fin y) = (if 0 \<le> y then PInf else NInf)"
| "divide_double NInf (Fin y) = (if 0 \<le> y then NInf else PInf)"
| "divide_double PInf PInf = NaN"
| "divide_double PInf NInf = NaN"
| "divide_double NInf PInf = NaN"
| "divide_double NInf NInf = NaN"

definition inverse_double :: "double \<Rightarrow> double" where
  "inverse_double x = divide (Fin 1) x"

fun less_double :: "double \<Rightarrow> double \<Rightarrow> bool" where
  "Fin x < Fin y = (x < y)"
| "NaN < _ = False"
| "_ < NaN = False"
| "_ < NInf = False"
| "PInf < _ = False"
| "NInf < _ = True"
| "_ < PInf = True"

fun less_eq_double :: "double \<Rightarrow> double \<Rightarrow> bool" where
  "Fin x \<le> Fin y = (x \<le> y)"
| "NaN \<le> _ = False"
| "_ \<le> NaN = False"
| "NInf \<le> _ = True"
| "_ \<le> PInf = True"
| "_ \<le> NInf = False"
| "PInf \<le> _ = False"

fun abs_double :: "double \<Rightarrow> double" where
  "\<bar>Fin x\<bar> = Fin \<bar>x\<bar>"
| "\<bar>PInf\<bar> = PInf"
| "\<bar>NInf\<bar> = PInf"
| "\<bar>NaN\<bar> = NaN"

instance ..

end

text \<open>The functions of \<^verbatim>\<open>math.h\<close> the program calls, with their special cases.\<close>

fun exp_d :: "double \<Rightarrow> double" where
  "exp_d (Fin x) = Fin (exp x)"
| "exp_d PInf = PInf"
| "exp_d NInf = Fin 0"
| "exp_d NaN = NaN"

fun log_d :: "double \<Rightarrow> double" where
  "log_d (Fin x) = (if 0 < x then Fin (ln x) else if x = 0 then NInf else NaN)"
| "log_d PInf = PInf"
| "log_d NInf = NaN"
| "log_d NaN = NaN"

fun log10_d :: "double \<Rightarrow> double" where
  "log10_d (Fin x) = (if 0 < x then Fin (log 10 x) else if x = 0 then NInf else NaN)"
| "log10_d PInf = PInf"
| "log10_d NInf = NaN"
| "log10_d NaN = NaN"

fun sqrt_d :: "double \<Rightarrow> double" where
  "sqrt_d (Fin x) = (if 0 \<le> x then Fin (sqrt x) else NaN)"
| "sqrt_d PInf = PInf"
| "sqrt_d NInf = NaN"
| "sqrt_d NaN = NaN"

fun sin_d :: "double \<Rightarrow> double" where
  "sin_d (Fin x) = Fin (sin x)"
| "sin_d PInf = NaN"
| "sin_d NInf = NaN"
| "sin_d NaN = NaN"

definition fabs :: "double \<Rightarrow> double" where
  "fabs x = \<bar>x\<bar>"

definition is_odd_integer :: "real \<Rightarrow> bool" where
  "is_odd_integer y = (y = of_int \<lfloor>y\<rfloor> \<and> odd \<lfloor>y\<rfloor>)"

text \<open>\<^verbatim>\<open>pow\<close> as C99 F.10.4.4 lists it.\<close>

fun pow_d :: "double \<Rightarrow> double \<Rightarrow> double" where
  "pow_d (Fin x) (Fin y) =
     (if y = 0 then Fin 1
      else if x = 1 then Fin 1
      else if 0 < x then Fin (x powr y)
      else if x = 0 then (if 0 < y then Fin 0 else PInf)
      else if y = of_int \<lfloor>y\<rfloor>
           then (if even \<lfloor>y\<rfloor> then Fin ((- x) powr y) else Fin (- ((- x) powr y)))
           else NaN)"
| "pow_d NaN (Fin y) = (if y = 0 then Fin 1 else NaN)"
| "pow_d PInf (Fin y) = (if y = 0 then Fin 1 else if 0 < y then PInf else Fin 0)"
| "pow_d NInf (Fin y) =
     (if y = 0 then Fin 1
      else if 0 < y then (if is_odd_integer y then NInf else PInf)
      else Fin 0)"
| "pow_d (Fin x) NaN = (if x = 1 then Fin 1 else NaN)"
| "pow_d (Fin x) PInf =
     (if \<bar>x\<bar> = 1 then Fin 1 else if \<bar>x\<bar> < 1 then Fin 0 else PInf)"
| "pow_d (Fin x) NInf =
     (if \<bar>x\<bar> = 1 then Fin 1 else if \<bar>x\<bar> < 1 then PInf else Fin 0)"
| "pow_d NaN _ = NaN"
| "pow_d _ NaN = NaN"
| "pow_d PInf PInf = PInf"
| "pow_d PInf NInf = Fin 0"
| "pow_d NInf PInf = PInf"
| "pow_d NInf NInf = Fin 0"

definition M_PI :: double where
  "M_PI = Fin pi"

text \<open>The conversion of an \<^verbatim>\<open>int\<close> to \<^verbatim>\<open>double\<close> in mixed arithmetic.\<close>

definition of_int_d :: "int \<Rightarrow> double" where
  "of_int_d i = Fin (of_int i)"

fun is_finite :: "double \<Rightarrow> bool" where
  "is_finite (Fin x) = True"
| "is_finite PInf = False"
| "is_finite NInf = False"
| "is_finite NaN = False"

text \<open>A pointer into an array is the array read and written by index; the program
  checks no bound.\<close>

type_synonym 'a array = "nat \<Rightarrow> 'a"

text \<open>A \<^verbatim>\<open>double[3]\<close> member.\<close>

datatype array3 = Array3 double double double

fun nth3 :: "array3 \<Rightarrow> nat \<Rightarrow> double" where
  "nth3 (Array3 x0 x1 x2) i = (if i = 0 then x0 else if i = 1 then x1 else x2)"

fun upd3 :: "array3 \<Rightarrow> nat \<Rightarrow> double \<Rightarrow> array3" where
  "upd3 (Array3 x0 x1 x2) i v =
     (if i = 0 then Array3 v x1 x2 else if i = 1 then Array3 x0 v x2 else Array3 x0 x1 v)"

section \<open>gtt\_geometry.h, gtt\_geometry.c\<close>

definition GTT_THETA_MAX :: double where "GTT_THETA_MAX = Fin 30.0"
definition GTT_D_ASYMPTOTIC :: double where "GTT_D_ASYMPTOTIC = Fin 2.7916667"
definition GTT_XI_G :: double where "GTT_XI_G = Fin 0.004"
definition GTT_BETA_EMERGENZ :: double where "GTT_BETA_EMERGENZ = Fin 0.1"
definition GTT_ALPHA_ENTFALTUNG :: double where "GTT_ALPHA_ENTFALTUNG = Fin 1.0"
definition GTT_BETA_ISO :: double where "GTT_BETA_ISO = Fin 0.028"
definition M_PLANCK :: double where "M_PLANCK = Fin (1.220910 * 10 ^ 19)"

record gtt_params =
  theta_max :: double
  D_asymptotic :: double
  xi_G :: double
  beta :: double
  alpha :: double
  chi :: double
  chi_P :: double
  beta_iso :: double

text \<open>\<^verbatim>\<open>gtt_params_init\<close> assigns every member but \<^verbatim>\<open>chi\<close>, which keeps what it held.\<close>

definition gtt_params_init :: "gtt_params \<Rightarrow> gtt_params" where
  "gtt_params_init p =
     p\<lparr> theta_max := GTT_THETA_MAX,
        D_asymptotic := GTT_D_ASYMPTOTIC,
        xi_G := GTT_XI_G,
        beta := GTT_BETA_EMERGENZ,
        alpha := GTT_ALPHA_ENTFALTUNG,
        chi_P := log_d (M_PLANCK / Fin 1.0),
        beta_iso := GTT_BETA_ISO \<rparr>"

definition gtt_fractal_dimension :: "double \<Rightarrow> gtt_params \<Rightarrow> double" where
  "gtt_fractal_dimension = (\<lambda>chi p.
     let D_inf = D_asymptotic p
     in D_inf - (D_inf - Fin 2.0) * exp_d (- chi / chi_P p))"

definition gtt_G_of_chi :: "double \<Rightarrow> gtt_params \<Rightarrow> double" where
  "gtt_G_of_chi = (\<lambda>chi p.
     let D = gtt_fractal_dimension chi p;
         G_Newton = Fin (6.67430 / 10 ^ 11);
         delta_G = (D - Fin 3.0) * chi;
         G_chi = G_Newton * exp_d delta_G;
         quantum_corr = Fin 1.0 + (Fin 2.0 / (Fin 3.0 * M_PI)) * G_chi
                                + (beta p / Fin 24.0) * G_chi * G_chi
     in G_chi * quantum_corr)"

definition gtt_Lambda_of_chi :: "double \<Rightarrow> gtt_params \<Rightarrow> double" where
  "gtt_Lambda_of_chi = (\<lambda>chi p.
     let Lambda_obs = Fin (1.1056 / 10 ^ 52);
         D = gtt_fractal_dimension chi p;
         scale_factor = exp_d (- (Fin 3.0 - D) * chi / Fin 2.0);
         vacuum_energy = xi_G p * exp_d (- chi / chi_P p)
     in Lambda_obs * scale_factor + vacuum_energy)"

definition gtt_cone_curvature :: "double \<Rightarrow> double \<Rightarrow> double" where
  "gtt_cone_curvature = (\<lambda>theta_max a.
     let theta_rad = theta_max * M_PI / Fin 180.0;
         deficit_angle = Fin 2.0 * M_PI * (Fin 1.0 - sin_d theta_rad);
         K_cone = deficit_angle / (a * a)
     in Fin 6.0 * K_cone)"

definition gtt_Q_term :: "double \<Rightarrow> double \<Rightarrow> gtt_params \<Rightarrow> double" where
  "gtt_Q_term = (\<lambda>a D p.
     let R = Fin 6.0 / (a * a);
         chiral_term = xi_G p * R * R;
         cone_term = (beta p / (Fin 4.0 * M_PI))
                       * pow_d (theta_max p * M_PI / Fin 180.0) (of_int_d 2)
                       * gtt_cone_curvature (theta_max p) a;
         unfold_term = alpha p * (Fin 3.0 - D) / (a * a)
     in chiral_term + cone_term + unfold_term)"


definition gtt_baryon_asymmetry :: "gtt_params \<Rightarrow> double" where
  "gtt_baryon_asymmetry = (\<lambda>p.
     let xi = xi_G p;
         theta_rad = theta_max p * M_PI / Fin 180.0;
         eta_B = Fin (6.1 / 10 ^ 10);
         theory_factor = xi * sin_d theta_rad * beta p;
         normalization = eta_B / theory_factor
     in theory_factor * normalization)"

section \<open>fractal\_rg.h, fractal\_rg.c\<close>

record rg_state =
  G :: double
  D :: double
  Lambda :: double
  g_gauge :: array3
  y_yukawa :: array3

definition beta_g3_SM :: "double \<Rightarrow> double" where
  "beta_g3_SM g3 = - Fin 7.0 * pow_d g3 (of_int_d 3) / (Fin 16.0 * M_PI * M_PI)"

definition beta_g2_SM :: "double \<Rightarrow> double" where
  "beta_g2_SM g2 = - Fin 19.0 / Fin 6.0 * pow_d g2 (of_int_d 3) / (Fin 16.0 * M_PI * M_PI)"

definition beta_g1_SM :: "double \<Rightarrow> double" where
  "beta_g1_SM g1 = Fin 41.0 / Fin 10.0 * pow_d g1 (of_int_d 3) / (Fin 16.0 * M_PI * M_PI)"

text \<open>\<^verbatim>\<open>rg_init_planck\<close> assigns every member of \<^verbatim>\<open>*state\<close>: the state it leaves.\<close>

definition rg_init_planck :: "gtt_params \<Rightarrow> rg_state" where
  "rg_init_planck p =
     \<lparr> G = Fin 1.0,
       D = Fin 2.0,
       Lambda = Fin 0.0,
       g_gauge = Array3 (Fin 0.7) (Fin 0.65) (Fin 0.35),
       y_yukawa = Array3 (Fin 1.0) (Fin 0.02) (Fin 0.01) \<rparr>"

definition rg_beta_G :: "rg_state \<Rightarrow> gtt_params \<Rightarrow> double" where
  "rg_beta_G = (\<lambda>state p.
     let G = rg_state.G state;
         D = rg_state.D state;
         term1 = (D - Fin 3.0) * G;
         term2 = (Fin 2.0 / (Fin 3.0 * M_PI)) * G * G;
         term3 = (beta p / Fin 24.0) * G * G * G
     in term1 + term2 + term3)"

definition rg_beta_D :: "rg_state \<Rightarrow> double \<Rightarrow> gtt_params \<Rightarrow> double" where
  "rg_beta_D = (\<lambda>state chi p.
     let D = rg_state.D state;
         term1 = - pow_d (Fin 3.0 - D) (of_int_d 2) / (Fin 4.0 * M_PI);
         term2 = (Fin 1.0 / Fin 24.0) * exp_d (- chi / chi_P p)
     in term1 + term2)"

definition rg_beta_Lambda :: "rg_state \<Rightarrow> gtt_params \<Rightarrow> double" where
  "rg_beta_Lambda = (\<lambda>state p.
     let D = rg_state.D state;
         G = rg_state.G state;
         vacuum_term = - (Fin 3.0 - D) * rg_state.Lambda state;
         graviton_loop = xi_G p * G * G / (Fin 16.0 * M_PI * M_PI)
     in vacuum_term + graviton_loop)"

text \<open>What the loop of \<^verbatim>\<open>rg_beta_gauge\<close> stores in \<^verbatim>\<open>beta_out[i]\<close>; the loop runs over
  \<open>i = 0, 1, 2\<close>, so the function leaves all three entries of \<^verbatim>\<open>beta_out\<close> assigned.\<close>

definition rg_beta_gauge_at :: "rg_state \<Rightarrow> gtt_params \<Rightarrow> nat \<Rightarrow> double" where
  "rg_beta_gauge_at = (\<lambda>state p i.
     let D = rg_state.D state;
         g_i = nth3 (g_gauge state) i;
         beta_SM = (if i = 0 then beta_g3_SM g_i
                    else if i = 1 then beta_g2_SM g_i
                    else beta_g1_SM g_i);
         gtt_term1 = (D - Fin 3.0) * g_i;
         gtt_term2 = (beta p / (Fin 8.0 * M_PI * M_PI)) * pow_d g_i (of_int_d 3)
     in beta_SM + gtt_term1 + gtt_term2)"

definition rg_beta_gauge :: "rg_state \<Rightarrow> gtt_params \<Rightarrow> array3" where
  "rg_beta_gauge state p =
     Array3 (rg_beta_gauge_at state p 0) (rg_beta_gauge_at state p 1) (rg_beta_gauge_at state p 2)"

text \<open>\<^verbatim>\<open>for (int i = 0; i < 3; i++) temp.g_gauge[i] += c * k.g_gauge[i];\<close>\<close>

definition gauge_add :: "double \<Rightarrow> array3 \<Rightarrow> rg_state \<Rightarrow> rg_state" where
  "gauge_add c k temp =
     fold (\<lambda>i t. t\<lparr> g_gauge := upd3 (g_gauge t) i (nth3 (g_gauge t) i + c * nth3 k i) \<rparr>)
       [0, 1, 2] temp"

text \<open>The locals \<^verbatim>\<open>k1 .. k4\<close> of \<^verbatim>\<open>rk4_step\<close> are structures of which only \<^verbatim>\<open>G\<close>,
  \<^verbatim>\<open>D\<close>, \<^verbatim>\<open>Lambda\<close> and \<^verbatim>\<open>g_gauge\<close> are ever assigned and read: each is four values here.\<close>

definition rk4_step :: "rg_state \<Rightarrow> double \<Rightarrow> double \<Rightarrow> gtt_params \<Rightarrow> rg_state" where
  "rk4_step = (\<lambda>state chi h p.
     let k1_G = rg_beta_G state p;
         k1_D = rg_beta_D state chi p;
         k1_Lambda = rg_beta_Lambda state p;
         k1_g_gauge = rg_beta_gauge state p;

         temp = state;
         temp = temp\<lparr> G := rg_state.G temp + Fin 0.5 * h * k1_G \<rparr>;
         temp = temp\<lparr> D := rg_state.D temp + Fin 0.5 * h * k1_D \<rparr>;
         temp = temp\<lparr> Lambda := rg_state.Lambda temp + Fin 0.5 * h * k1_Lambda \<rparr>;
         temp = gauge_add (Fin 0.5 * h) k1_g_gauge temp;
         k2_G = rg_beta_G temp p;
         k2_D = rg_beta_D temp (chi + Fin 0.5 * h) p;
         k2_Lambda = rg_beta_Lambda temp p;
         k2_g_gauge = rg_beta_gauge temp p;

         temp = state;
         temp = temp\<lparr> G := rg_state.G temp + Fin 0.5 * h * k2_G \<rparr>;
         temp = temp\<lparr> D := rg_state.D temp + Fin 0.5 * h * k2_D \<rparr>;
         temp = temp\<lparr> Lambda := rg_state.Lambda temp + Fin 0.5 * h * k2_Lambda \<rparr>;
         temp = gauge_add (Fin 0.5 * h) k2_g_gauge temp;
         k3_G = rg_beta_G temp p;
         k3_D = rg_beta_D temp (chi + Fin 0.5 * h) p;
         k3_Lambda = rg_beta_Lambda temp p;
         k3_g_gauge = rg_beta_gauge temp p;

         temp = state;
         temp = temp\<lparr> G := rg_state.G temp + h * k3_G \<rparr>;
         temp = temp\<lparr> D := rg_state.D temp + h * k3_D \<rparr>;
         temp = temp\<lparr> Lambda := rg_state.Lambda temp + h * k3_Lambda \<rparr>;
         temp = gauge_add h k3_g_gauge temp;
         k4_G = rg_beta_G temp p;
         k4_D = rg_beta_D temp (chi + h) p;
         k4_Lambda = rg_beta_Lambda temp p;
         k4_g_gauge = rg_beta_gauge temp p;

         state = state\<lparr> G := rg_state.G state
                   + (h / Fin 6.0) * (k1_G + of_int_d 2 * k2_G + of_int_d 2 * k3_G + k4_G) \<rparr>;
         state = state\<lparr> D := rg_state.D state
                   + (h / Fin 6.0) * (k1_D + of_int_d 2 * k2_D + of_int_d 2 * k3_D + k4_D) \<rparr>;
         state = state\<lparr> Lambda := rg_state.Lambda state
                   + (h / Fin 6.0) * (k1_Lambda + of_int_d 2 * k2_Lambda
                                        + of_int_d 2 * k3_Lambda + k4_Lambda) \<rparr>
     in fold (\<lambda>i s. s\<lparr> g_gauge := upd3 (g_gauge s) i
                 (nth3 (g_gauge s) i
                    + (h / Fin 6.0) * (nth3 k1_g_gauge i + of_int_d 2 * nth3 k2_g_gauge i
                                         + of_int_d 2 * nth3 k3_g_gauge i + nth3 k4_g_gauge i)) \<rparr>)
          [0, 1, 2] state)"

text \<open>The loop of \<^verbatim>\<open>rg_integrate\<close>, from the counter \<open>i\<close> on.\<close>

function rg_integrate_loop ::
  "int \<Rightarrow> int \<Rightarrow> double \<Rightarrow> double \<Rightarrow> gtt_params \<Rightarrow> rg_state \<Rightarrow> rg_state" where
  "rg_integrate_loop i n_steps chi_start step p state_out =
     (if i < n_steps
      then rg_integrate_loop (i + 1) n_steps chi_start step p
             (rk4_step state_out (chi_start + of_int_d i * step) step p)
      else state_out)"
  by pat_completeness auto
termination
  by (relation "measure (\<lambda>(i, n_steps, _). nat (n_steps - i))") auto

text \<open>\<^verbatim>\<open>rg_integrate\<close> returns its \<^verbatim>\<open>int\<close> and what it leaves in \<^verbatim>\<open>*state_out\<close>.\<close>

definition rg_integrate ::
  "rg_state \<Rightarrow> double \<Rightarrow> double \<Rightarrow> gtt_params \<Rightarrow> int \<times> rg_state" where
  "rg_integrate = (\<lambda>state_in chi_start chi_end p.
     let state_out = state_in;
         n_steps = 1000;
         h = (chi_end - chi_start) / of_int_d n_steps
     in (0, rg_integrate_loop 0 n_steps chi_start h p state_out))"

text \<open>The loop of \<^verbatim>\<open>rg_flow_full\<close>: the state is \<^verbatim>\<open>current_state\<close> and \<^verbatim>\<open>states_out\<close>.\<close>

function rg_flow_loop ::
  "int \<Rightarrow> int \<Rightarrow> double array \<Rightarrow> gtt_params \<Rightarrow> rg_state \<times> rg_state array
     \<Rightarrow> rg_state \<times> rg_state array" where
  "rg_flow_loop i n_points chi_array p (current_state, states_out) =
     (if i < n_points
      then let states_out = states_out(nat i :=
                 snd (rg_integrate current_state (chi_array (nat (i - 1))) (chi_array (nat i)) p));
               current_state = states_out (nat i)
           in rg_flow_loop (i + 1) n_points chi_array p (current_state, states_out)
      else (current_state, states_out))"
  by pat_completeness auto
termination
  by (relation "measure (\<lambda>(i, n_points, _). nat (n_points - i))") auto

text \<open>\<^verbatim>\<open>rg_flow_full\<close> returns its \<^verbatim>\<open>int\<close> and what it leaves in \<^verbatim>\<open>states_out\<close>.\<close>

definition rg_flow_full ::
  "double array \<Rightarrow> int \<Rightarrow> rg_state array \<Rightarrow> gtt_params \<Rightarrow> int \<times> rg_state array" where
  "rg_flow_full chi_array n_points states_out p =
     (let current_state = rg_init_planck p;
          states_out = states_out(0 := current_state)
      in (0, snd (rg_flow_loop 1 n_points chi_array p (current_state, states_out))))"

text \<open>\<^verbatim>\<open>rg_find_fixed_points\<close> returns \<^verbatim>\<open>n_fixed\<close> and leaves its two output arrays.\<close>

definition rg_find_fixed_points ::
  "double array \<Rightarrow> rg_state array \<Rightarrow> gtt_params \<Rightarrow> int \<times> double array \<times> rg_state array" where
  "rg_find_fixed_points = (\<lambda>chi_fixed state_fixed p.
     let n_fixed = (0 :: int);
         D_fixed = Fin 3.0 - sqrt_d (M_PI / Fin 6.0)
     in if fabs (D_fixed - D_asymptotic p) < Fin 0.5
        then let chi_fixed = chi_fixed(nat n_fixed := chi_P p / Fin 2.0);
                 state_fixed = state_fixed(nat n_fixed :=
                                 (state_fixed (nat n_fixed))\<lparr> D := D_fixed \<rparr>);
                 state_fixed = state_fixed(nat n_fixed :=
                                 (state_fixed (nat n_fixed))\<lparr> G := Fin 1.0 \<rparr>);
                 n_fixed = n_fixed + 1
             in (n_fixed, chi_fixed, state_fixed)
        else (n_fixed, chi_fixed, state_fixed))"

section \<open>gtt\_background.c\<close>

definition SUCCESS :: int where "SUCCESS = 0"
definition FAILURE :: int where "FAILURE = 1"

record cosmology_params =
  h :: double
  Omega_b :: double
  Omega_cdm :: double
  Omega_lambda :: double
  Omega_k :: double
  T_cmb :: double
  N_eff :: double

definition rho_total :: "double \<Rightarrow> cosmology_params \<Rightarrow> gtt_params \<Rightarrow> double" where
  "rho_total = (\<lambda>a cosmo gtt.
     let H0 = h cosmo * Fin 100.0 * Fin 1000.0 / Fin (3.08567758 * 10 ^ 22);
         rho_crit = Fin 3.0 * H0 * H0 / (Fin 8.0 * M_PI * Fin (6.67430 / 10 ^ 11));
         rho_m = (Omega_b cosmo + Omega_cdm cosmo) * rho_crit / (a * a * a);
         Omega_r = Fin (4.18 / 10 ^ 5) / (h cosmo * h cosmo);
         rho_r = Omega_r * rho_crit / (a * a * a * a);
         chi = log_d a;
         D = gtt_fractal_dimension chi gtt;
         fractal_corr = pow_d a (- (D + Fin 1.0)) / pow_d a (- Fin 4.0)
     in rho_m + rho_r * fractal_corr)"

text \<open>\<^verbatim>\<open>int gtt_friedmann_equation(double a, double* H, void* params)\<close>: the result is the
  returned \<^verbatim>\<open>int\<close> and the value stored through \<^verbatim>\<open>H\<close>, \<open>None\<close> when nothing is stored.
  \<^verbatim>\<open>params\<close> is the pair of the two parameter structures.\<close>

definition gtt_friedmann_equation ::
  "double \<Rightarrow> cosmology_params \<times> gtt_params \<Rightarrow> int \<times> double option" where
  "gtt_friedmann_equation = (\<lambda>a params.
     let cosmo = fst params;
         gtt = snd params
     in if a \<le> Fin 0.0 then (FAILURE, None)
        else let chi = log_d a;
                 G_chi = gtt_G_of_chi chi gtt;
                 Lambda_chi = gtt_Lambda_of_chi chi gtt;
                 D = gtt_fractal_dimension chi gtt;
                 rho = rho_total a cosmo gtt;
                 K = Fin 0.0;
                 Q = gtt_Q_term a D gtt;
                 H_squared = (Fin 8.0 * M_PI * G_chi / Fin 3.0) * rho
                               - K / (a * a)
                               + Lambda_chi / Fin 3.0
                               + Q / Fin 3.0
             in if H_squared < Fin 0.0 then (FAILURE, None)
                else (SUCCESS, Some (sqrt_d H_squared)))"

text \<open>\<^verbatim>\<open>gtt_hubble_at_z\<close> reads its local \<^verbatim>\<open>H\<close> only after a call that returned
  \<^verbatim>\<open>_SUCCESS_\<close>, which has stored it; the last case is the read of the unassigned local.\<close>

definition gtt_hubble_at_z :: "double \<Rightarrow> cosmology_params \<Rightarrow> gtt_params \<Rightarrow> double" where
  "gtt_hubble_at_z = (\<lambda>z cosmo gtt.
     let a = Fin 1.0 / (Fin 1.0 + z);
         params = (cosmo, gtt)
     in case gtt_friedmann_equation a params of
          (rc, H) \<Rightarrow>
            if rc \<noteq> SUCCESS then - Fin 1.0
            else (case H of Some H \<Rightarrow> H | None \<Rightarrow> NaN))"

text \<open>The loop of \<^verbatim>\<open>gtt_distance_modulus\<close> from the counter \<open>i\<close> on, with the running
  \<^verbatim>\<open>integral\<close>: \<open>None\<close> is the \<^verbatim>\<open>return -1.0\<close> inside the loop.\<close>

function distance_modulus_loop ::
  "int \<Rightarrow> int \<Rightarrow> double \<Rightarrow> cosmology_params \<Rightarrow> gtt_params \<Rightarrow> double \<Rightarrow> double option" where
  "distance_modulus_loop i n_steps dz cosmo gtt integral =
     (if i < n_steps
      then let z_i = (of_int_d i + Fin 0.5) * dz;
               H_z = gtt_hubble_at_z z_i cosmo gtt
           in if H_z < of_int_d 0 then None
              else distance_modulus_loop (i + 1) n_steps dz cosmo gtt (integral + dz / H_z)
      else Some integral)"
  by pat_completeness auto
termination
  by (relation "measure (\<lambda>(i, n_steps, _). nat (n_steps - i))") auto

definition gtt_distance_modulus :: "double \<Rightarrow> cosmology_params \<Rightarrow> gtt_params \<Rightarrow> double" where
  "gtt_distance_modulus = (\<lambda>z cosmo gtt.
     let c = Fin 299792458.0;
         H0 = h cosmo * Fin 100.0 * Fin 1000.0 / Fin (3.08567758 * 10 ^ 22);
         n_steps = 100;
         dz = z / of_int_d n_steps;
         integral = Fin 0.0
     in case distance_modulus_loop 0 n_steps dz cosmo gtt integral of
          None \<Rightarrow> - Fin 1.0
        | Some integral \<Rightarrow>
            let d_L = c * (Fin 1.0 + z) * integral;
                d_L_Mpc = d_L / Fin (3.08567758 * 10 ^ 22);
                mu = Fin 5.0 * log10_d d_L_Mpc + Fin 25.0
            in mu)"

text \<open>The loop of \<^verbatim>\<open>gtt_age_of_universe\<close> from the counter \<open>i\<close> on, with the running
  \<^verbatim>\<open>age\<close>.  As in \<^verbatim>\<open>gtt_hubble_at_z\<close>, the local \<^verbatim>\<open>H\<close> is read only after a call that
  returned \<^verbatim>\<open>_SUCCESS_\<close> and stored it.\<close>

function age_loop ::
  "int \<Rightarrow> int \<Rightarrow> double \<Rightarrow> cosmology_params \<Rightarrow> gtt_params \<Rightarrow> double \<Rightarrow> double" where
  "age_loop i n_steps da cosmo gtt age =
     (if i \<le> n_steps
      then let a = of_int_d i * da;
               params = (cosmo, gtt)
           in age_loop (i + 1) n_steps da cosmo gtt
                (case gtt_friedmann_equation a params of
                   (rc, H) \<Rightarrow>
                     if rc = SUCCESS
                     then (case H of Some H \<Rightarrow> age + da / (a * H) | None \<Rightarrow> NaN)
                     else age)
      else age)"
  by pat_completeness auto
termination
  by (relation "measure (\<lambda>(i, n_steps, _). nat (n_steps + 1 - i))") auto

definition gtt_age_of_universe :: "cosmology_params \<Rightarrow> gtt_params \<Rightarrow> double" where
  "gtt_age_of_universe = (\<lambda>cosmo gtt.
     let n_steps = 1000;
         da = Fin 1.0 / of_int_d n_steps;
         age = Fin 0.0;
         age = age_loop 1 n_steps da cosmo gtt age;
         age_seconds = age;
         age_years = age_seconds / (Fin 365.25 * Fin 24.0 * Fin 3600.0)
     in age_years)"

section \<open>Concrete inputs\<close>

text \<open>The parameter set \<^verbatim>\<open>gtt_background_test\<close> builds: \<^verbatim>\<open>gtt_params_init\<close> on a structure
  whose members held zero, and the cosmological parameters of the same function.\<close>

definition gtt_defaults :: gtt_params where
  "gtt_defaults =
     gtt_params_init
       \<lparr> theta_max = Fin 0, D_asymptotic = Fin 0, xi_G = Fin 0, beta = Fin 0,
         alpha = Fin 0, chi = Fin 0, chi_P = Fin 0, beta_iso = Fin 0 \<rparr>"

definition cosmo_defaults :: cosmology_params where
  "cosmo_defaults =
     \<lparr> h = Fin 0.674, Omega_b = Fin 0.0493, Omega_cdm = Fin 0.264,
       Omega_lambda = Fin 0.6847, Omega_k = Fin 0.0, T_cmb = Fin 2.7255, N_eff = Fin 3.046 \<rparr>"

fun array3_finite :: "array3 \<Rightarrow> bool" where
  "array3_finite (Array3 x0 x1 x2) = (is_finite x0 \<and> is_finite x1 \<and> is_finite x2)"

definition rg_state_finite :: "rg_state \<Rightarrow> bool" where
  "rg_state_finite s =
     (is_finite (G s) \<and> is_finite (D s) \<and> is_finite (Lambda s)
      \<and> array3_finite (g_gauge s) \<and> array3_finite (y_yukawa s))"

section \<open>The statements to compare the code with\<close>

text \<open>The right-hand side of the Friedmann equation in the words of the specification:
  \<open>H\<^sup>2 = (8 pi G(chi) / 3) rho + Lambda(chi) / 3 + Q / 3\<close> with \<open>chi = ln a\<close> (the curvature
  term is absent, \<open>K = 0\<close>).\<close>

definition friedmann_rhs :: "double \<Rightarrow> cosmology_params \<Rightarrow> gtt_params \<Rightarrow> double" where
  "friedmann_rhs a cosmo gtt =
     (let chi = log_d a
      in (Fin 8 * M_PI * gtt_G_of_chi chi gtt / Fin 3) * rho_total a cosmo gtt
           + gtt_Lambda_of_chi chi gtt / Fin 3
           + gtt_Q_term a (gtt_fractal_dimension chi gtt) gtt / Fin 3)"

text \<open>The quadrature of the age in the words of the specification: the samples
  \<open>a\<^sub>i = i * da\<close>, \<open>i = 1, \<dots>, 1000\<close>, \<open>da = 1/1000\<close>; those at which the Friedmann
  evaluation succeeds; the Hubble rate it stores there; the terms \<open>da / (a\<^sub>i * H(a\<^sub>i))\<close>
  of the successful samples added in the order of \<open>i\<close>; seconds to years.\<close>

definition age_sample :: "int \<Rightarrow> double" where
  "age_sample i = of_int_d i * (Fin 1 / Fin 1000)"

definition friedmann_succeeds :: "cosmology_params \<Rightarrow> gtt_params \<Rightarrow> double \<Rightarrow> bool" where
  "friedmann_succeeds cosmo gtt a = (fst (gtt_friedmann_equation a (cosmo, gtt)) = SUCCESS)"

definition friedmann_H :: "cosmology_params \<Rightarrow> gtt_params \<Rightarrow> double \<Rightarrow> double" where
  "friedmann_H cosmo gtt a =
     (case snd (gtt_friedmann_equation a (cosmo, gtt)) of Some H \<Rightarrow> H | None \<Rightarrow> NaN)"

definition age_sum :: "cosmology_params \<Rightarrow> gtt_params \<Rightarrow> double" where
  "age_sum cosmo gtt =
     foldl (+) (Fin 0)
       (map (\<lambda>i. (Fin 1 / Fin 1000) / (age_sample i * friedmann_H cosmo gtt (age_sample i)))
          (filter (\<lambda>i. friedmann_succeeds cosmo gtt (age_sample i)) [1..1000]))"

definition age_years :: "cosmology_params \<Rightarrow> gtt_params \<Rightarrow> double" where
  "age_years cosmo gtt = age_sum cosmo gtt / Fin (365.25 * 24 * 3600)"


text \<open>The quadrature of the distance modulus in the words of the specification: the
  midpoint samples \<open>z\<^sub>i = (i + 0.5) * dz\<close>, \<open>i = 0, \<dots>, 99\<close>, \<open>dz = z / 100\<close>; the Hubble
  rate at each; the midpoint sum of \<open>dz / H(z\<^sub>i)\<close> in the order of \<open>i\<close>; and
  \<open>mu = 5 log10 (d_L [Mpc]) + 25\<close> with \<open>d_L = c (1 + z)\<close> times the sum.\<close>

definition dm_sample :: "double \<Rightarrow> int \<Rightarrow> double" where
  "dm_sample z i = (of_int_d i + Fin 0.5) * (z / of_int_d 100)"

definition dm_H :: "double \<Rightarrow> cosmology_params \<Rightarrow> gtt_params \<Rightarrow> int \<Rightarrow> double" where
  "dm_H z cosmo gtt i = gtt_hubble_at_z (dm_sample z i) cosmo gtt"

definition dm_integral :: "double \<Rightarrow> cosmology_params \<Rightarrow> gtt_params \<Rightarrow> double" where
  "dm_integral z cosmo gtt =
     foldl (+) (Fin 0) (map (\<lambda>i. (z / of_int_d 100) / dm_H z cosmo gtt i) [0..99])"

definition dm_mu :: "double \<Rightarrow> cosmology_params \<Rightarrow> gtt_params \<Rightarrow> double" where
  "dm_mu z cosmo gtt =
     Fin 5 * log10_d (Fin 299792458 * (Fin 1 + z) * dm_integral z cosmo gtt
                        / Fin (3.08567758 * 10 ^ 22))
       + Fin 25"

text \<open>A cosmology and a parameter set whose first midpoint sample at \<open>z = 600\<close>
  (\<open>z\<^sub>0 = 3\<close>, \<open>a = 1/4\<close>) has a vanishing Friedmann right-hand side.  With \<open>h = 1\<close> the
  radiation density parameter is \<open>4.18e-5\<close>, and \<open>Omega_b = -16 * 4.18e-5\<close> cancels the
  radiation term where the fractal correction is 4; \<open>D_asymptotic = 6\<close> and \<open>chi_P = -2\<close>
  give \<open>D = 6 - 4 sqrt a\<close>, which is 4 at \<open>a = 1/4\<close>; \<open>xi_G = 0\<close> and \<open>beta = 0\<close> remove
  the chiral, the vacuum and the cone term; and \<open>alpha = Lambda_obs / 32\<close> cancels the
  cosmological term there.  Every operation of the code on a non-zero value at that
  sample is a multiplication or division by a power of two, or the sum of a number and
  its negative.  \<open>H2_balanced a\<close> is the right-hand side at scale factor \<open>a\<close>.\<close>

definition Lambda_obs :: real where "Lambda_obs = 1.1056 / 10 ^ 52"

definition G_Newton :: real where "G_Newton = 6.67430 / 10 ^ 11"

definition cosmo_balanced :: cosmology_params where
  "cosmo_balanced =
     \<lparr> h = Fin 1, Omega_b = Fin (- (6.688 / 10 ^ 4)), Omega_cdm = Fin 0,
       Omega_lambda = Fin 0.6847, Omega_k = Fin 0.0, T_cmb = Fin 2.7255, N_eff = Fin 3.046 \<rparr>"

definition gtt_balanced :: gtt_params where
  "gtt_balanced =
     \<lparr> theta_max = Fin 30, D_asymptotic = Fin 6, xi_G = Fin 0, beta = Fin 0,
       alpha = Fin (3.455 / 10 ^ 54), chi = Fin 0, chi_P = Fin (- 2), beta_iso = Fin 0.028 \<rparr>"

definition H0_unit :: real where
  "H0_unit = 100 * 1000 / (3.08567758 * 10 ^ 22)"

definition rho_crit_unit :: real where
  "rho_crit_unit = 3 * H0_unit\<^sup>2 / (8 * pi * G_Newton)"

definition H2_balanced :: "real \<Rightarrow> real" where
  "H2_balanced a =
     (let y = 3 - 4 * exp (ln a / 2);
          Gc = G_Newton * exp (y * ln a)
      in (8 * pi * (Gc * (1 + 2 / (3 * pi) * Gc)) / 3)
           * (- (6.688 / 10 ^ 4) * rho_crit_unit / (a * a * a)
              + 4.18 / 10 ^ 5 * rho_crit_unit / (a * a * a * a)
                  * (a powr (- (4 + y)) / a powr (- 4)))
         + Lambda_obs * exp (y * ln a / 2) / 3
         + 3.455 / 10 ^ 54 * (- y) / (a * a) / 3)"


section \<open>Arithmetic of the special values\<close>

declare rg_integrate_loop.simps [simp del]
declare rg_flow_loop.simps [simp del]
declare distance_modulus_loop.simps [simp del]
declare age_loop.simps [simp del]

lemma add_NaN_right [simp]: "x + NaN = NaN" for x :: double
  by (cases x) simp_all

lemma mult_NaN_right [simp]: "x * NaN = NaN" for x :: double
  by (cases x) simp_all

lemma divide_NaN_right [simp]: "x / NaN = NaN" for x :: double
  by (cases x) simp_all

lemma add_Fin_0_right [simp]: "x + Fin 0 = x"
  by (cases x) simp_all

lemma diff_Fin_0_right [simp]: "x - Fin 0 = x"
  by (simp add: minus_double_def)

lemma mult_PInf_not_finite: "\<not> is_finite (x * PInf)"
  by (cases x) simp_all

lemma mult_not_finite: "\<not> is_finite x \<Longrightarrow> \<not> is_finite (x * y)"
  by (cases x; cases y) simp_all

lemma add_not_finite: "\<not> is_finite x \<Longrightarrow> \<not> is_finite (x + y)"
  by (cases x; cases y) simp_all

lemma pow_d_2: "pow_d (Fin x) (of_int_d 2) = Fin (x\<^sup>2)"
proof -
  have "x < 0 \<Longrightarrow> (- x) powr 2 = x\<^sup>2"
    using powr_numeral [of "- x" "num.Bit0 num.One"] by simp
  then show ?thesis by (simp add: of_int_d_def)
qed

lemma gtt_defaults_simps:
  "theta_max gtt_defaults = Fin 30" "D_asymptotic gtt_defaults = Fin 2.7916667"
  "xi_G gtt_defaults = Fin 0.004" "beta gtt_defaults = Fin 0.1" "alpha gtt_defaults = Fin 1"
  "chi_P gtt_defaults = Fin (ln (1.220910 * 10 ^ 19))"
  by (simp_all add: gtt_defaults_def gtt_params_init_def GTT_THETA_MAX_def GTT_D_ASYMPTOTIC_def
        GTT_XI_G_def GTT_BETA_EMERGENZ_def GTT_ALPHA_ENTFALTUNG_def M_PLANCK_def)

section \<open>The renormalisation-group flow\<close>

lemma gauge_add_yukawa: "y_yukawa (gauge_add c k t) = y_yukawa t"
  by (simp add: gauge_add_def)

lemma rk4_step_yukawa: "y_yukawa (rk4_step s x hh p) = y_yukawa s"
  by (simp add: rk4_step_def Let_def)

lemma rg_integrate_loop_yukawa:
  "y_yukawa (rg_integrate_loop i n cs hh p s) = y_yukawa s"
proof (induction i n cs hh p s rule: rg_integrate_loop.induct)
  case (1 i n cs hh p s)
  show ?case
    by (subst rg_integrate_loop.simps) (simp add: 1 rk4_step_yukawa)
qed

lemma rg_integrate_yukawa:
  "y_yukawa (snd (rg_integrate s cs ce p)) = y_yukawa s"
  by (simp add: rg_integrate_def Let_def rg_integrate_loop_yukawa)

text \<open>The invariant of the loop of \<^verbatim>\<open>rg_flow_full\<close>: \<^verbatim>\<open>current_state\<close> and every entry of
  \<^verbatim>\<open>states_out\<close> written so far hold the same Yukawa members.\<close>

lemma rg_flow_loop_yukawa:
  assumes "y_yukawa cur = Y" and "\<forall>j. int j < i \<longrightarrow> y_yukawa (so j) = Y" and "0 \<le> i"
  shows "\<forall>j. int j < max i n \<longrightarrow> y_yukawa (snd (rg_flow_loop i n ca p (cur, so)) j) = Y"
  using assms
proof (induction i n ca p "(cur, so)" arbitrary: cur so rule: rg_flow_loop.induct)
  case (1 i n ca p cur so)
  show ?case
  proof (cases "i < n")
    case False
    then show ?thesis using 1(2-) by (subst rg_flow_loop.simps) (simp add: max_def)
  next
    case True
    let ?s = "snd (rg_integrate cur (ca (nat (i - 1))) (ca (nat i)) p)"
    let ?so = "so(nat i := ?s)"
    have y: "y_yukawa ?s = Y" using 1(2) by (simp add: rg_integrate_yukawa)
    have inv: "\<forall>j. int j < i + 1 \<longrightarrow> y_yukawa (?so j) = Y"
      using 1(3,4) y by auto
    have "\<forall>j. int j < max (i + 1) n
            \<longrightarrow> y_yukawa (snd (rg_flow_loop (i + 1) n ca p (?so (nat i), ?so)) j) = Y"
      by (rule 1(1)[OF True refl refl]) (use y inv 1(4) in auto)
    moreover have "max (i + 1) n = max i n" using True by simp
    ultimately show ?thesis using True
      by (subst rg_flow_loop.simps) (simp add: Let_def)
  qed
qed

lemma rg_flow_full_yukawa:
  assumes "j = 0 \<or> int j < n_points"
  shows "y_yukawa (snd (rg_flow_full chi_array n_points states_out p) j)
           = y_yukawa (rg_init_planck p)"
proof -
  let ?c = "rg_init_planck p"
  have "\<forall>j. int j < max 1 n_points
          \<longrightarrow> y_yukawa (snd (rg_flow_loop 1 n_points chi_array p (?c, states_out(0 := ?c))) j)
                = y_yukawa ?c"
    by (rule rg_flow_loop_yukawa) auto
  moreover have "int j < max 1 n_points" using assms by auto
  ultimately show ?thesis by (simp add: rg_flow_full_def Let_def)
qed

text \<open>The loop of \<^verbatim>\<open>rg_integrate\<close> is the left-to-right iteration of \<^verbatim>\<open>rk4_step\<close> over the
  counters \<open>i, \<dots>, n - 1\<close>.\<close>

lemma rg_integrate_loop_fold:
  "i \<le> n \<Longrightarrow> rg_integrate_loop (int i) (int n) cs hh p s
     = fold (\<lambda>k st. rk4_step st (cs + of_int_d (int k) * hh) hh p) [i..<n] s"
proof (induction "n - i" arbitrary: i s)
  case 0
  then show ?case by (subst rg_integrate_loop.simps) simp
next
  case (Suc d)
  then have lt: "i < n" and d: "d = n - Suc i" by auto
  have "rg_integrate_loop (int i) (int n) cs hh p s
      = rg_integrate_loop (int (Suc i)) (int n) cs hh p
          (rk4_step s (cs + of_int_d (int i) * hh) hh p)"
    using lt by (subst rg_integrate_loop.simps) (simp add: add.commute)
  also have "\<dots> = fold (\<lambda>k st. rk4_step st (cs + of_int_d (int k) * hh) hh p) [Suc i..<n]
                     (rk4_step s (cs + of_int_d (int i) * hh) hh p)"
    using Suc(1)[OF d] lt by simp
  finally show ?case using lt by (simp add: upt_conv_Cons)
qed

text \<open>
  C8.  No step of the integrator touches the Yukawa members: \<^verbatim>\<open>rk4_step\<close> and
  \<^verbatim>\<open>rg_integrate\<close> leave \<^verbatim>\<open>y_yukawa\<close> of the output equal to that of the input, whatever
  the state, the interval and the parameters; so every state \<^verbatim>\<open>rg_flow_full\<close> writes
  (entry 0, and entry \<open>j\<close> for \<open>j < n_points\<close>) holds the initial values
  \<open>[1.0, 0.02, 0.01]\<close> of \<^verbatim>\<open>rg_init_planck\<close>.
\<close>

theorem yukawa_never_updated:
  "y_yukawa (rk4_step state x step p) = y_yukawa state
   \<and> y_yukawa (snd (rg_integrate state_in chi_start chi_end p)) = y_yukawa state_in
   \<and> (j = 0 \<or> int j < n_points \<longrightarrow>
        y_yukawa (snd (rg_flow_full chi_array n_points states_out p) j)
          = Array3 (Fin 1.0) (Fin 0.02) (Fin 0.01))"
proof -
  have "y_yukawa (rg_init_planck p) = Array3 (Fin 1.0) (Fin 0.02) (Fin 0.01)"
    by (simp add: rg_init_planck_def)
  then show ?thesis
    using rg_flow_full_yukawa [of j n_points chi_array states_out p]
    by (simp add: rk4_step_yukawa rg_integrate_yukawa)
qed

theorem yukawa_never_updated_witness:
  "y_yukawa (snd (rg_flow_full (\<lambda>i. Fin (- real i)) 3 (\<lambda>i. rg_init_planck gtt_defaults)
                    gtt_defaults) 2)
     = Array3 (Fin 1.0) (Fin 0.02) (Fin 0.01)"
  using yukawa_never_updated
    [of "rg_init_planck gtt_defaults" "Fin 0" "Fin 0" gtt_defaults
        "rg_init_planck gtt_defaults" "Fin 0" "Fin 0" 2 3
        "\<lambda>i. Fin (- real i)" "\<lambda>i. rg_init_planck gtt_defaults"]
  by simp

text \<open>
  C3 (as the code has it).  \<^verbatim>\<open>rg_integrate\<close> has no failure path: for every input state,
  interval and parameter set, finite or not, it returns 0, and the state it leaves is
  the input state after exactly 1000 calls of \<^verbatim>\<open>rk4_step\<close>, the \<open>k\<close>-th at
  \<open>chi_start + k * h\<close> with the fixed step \<open>h = (chi_end - chi_start) / 1000\<close>.
\<close>

theorem rg_integrate_returns_zero:
  "fst (rg_integrate state_in chi_start chi_end p) = 0
   \<and> snd (rg_integrate state_in chi_start chi_end p)
       = fold (\<lambda>k st. rk4_step st
                  (chi_start + of_int_d (int k) * ((chi_end - chi_start) / of_int_d 1000))
                  ((chi_end - chi_start) / of_int_d 1000) p)
           [0..<1000] state_in
   \<and> length [0..<1000 :: nat] = 1000"
  using rg_integrate_loop_fold
    [of 0 1000 chi_start "(chi_end - chi_start) / of_int_d 1000" p state_in]
  by (simp add: rg_integrate_def Let_def)

text \<open>
  C3 as stated fails: a state whose \<^verbatim>\<open>G\<close> is NaN is a non-finite input, and
  \<^verbatim>\<open>rg_integrate\<close> still returns 0, the success code.
\<close>

theorem rg_integrate_nonfinite_counterexample:
  "\<not> rg_state_finite ((rg_init_planck gtt_defaults)\<lparr> G := NaN \<rparr>)
   \<and> fst (rg_integrate ((rg_init_planck gtt_defaults)\<lparr> G := NaN \<rparr>) (Fin 0) (Fin 1)
            gtt_defaults) = 0"
  by (simp add: rg_state_finite_def rg_integrate_def Let_def)

section \<open>The fixed-point candidate\<close>

lemma pi_gt_3012: "3.012 < pi"
proof (rule ccontr)
  assume "\<not> 3.012 < pi"
  then have up: "pi / 6 \<le> 0.502" by simp
  have lo: "1 / 2 \<le> pi / 6"
    using sin_x_le_x [of "pi / 6"] by (simp add: sin_30)
  have sum_eq: "(\<Sum>m<4. sin_coeff m * (pi / 6) ^ m) = pi / 6 - (pi / 6) ^ 3 / 6"
    by (simp add: eval_nat_numeral lessThan_Suc sin_coeff_Suc cos_coeff_Suc)
  have f4: "fact 4 = (24 :: real)" by (simp add: eval_nat_numeral)
  have "\<bar>sin (pi / 6) - (\<Sum>m<4. sin_coeff m * (pi / 6) ^ m)\<bar>
          \<le> inverse (fact 4) * \<bar>pi / 6\<bar> ^ 4"
    by (rule Maclaurin_sin_bound)
  then have "\<bar>1 / 2 - (pi / 6 - (pi / 6) ^ 3 / 6)\<bar> \<le> inverse 24 * \<bar>pi / 6\<bar> ^ 4"
    unfolding sum_eq sin_30 f4 .
  moreover have "inverse 24 * \<bar>pi / 6\<bar> ^ 4 = (pi / 6) ^ 4 / 24"
    by simp
  ultimately have b: "1 / 2 \<le> pi / 6 - (pi / 6) ^ 3 / 6 + (pi / 6) ^ 4 / 24"
    by linarith
  have "(1 / 2) ^ 3 \<le> (pi / 6) ^ 3"
    using lo by (intro power_mono) auto
  moreover have "(pi / 6) ^ 4 \<le> 0.502 ^ 4"
    using up by (intro power_mono) auto
  ultimately have "pi / 6 - (pi / 6) ^ 3 / 6 + (pi / 6) ^ 4 / 24
                     \<le> 0.502 - (1 / 2) ^ 3 / 6 + 0.502 ^ 4 / 24"
    using up by linarith
  also have "\<dots> < 1 / 2" by (simp add: power4_eq_xxxx power3_eq_cube)
  finally show False using b by simp
qed

lemma sqrt_pi_6_gt: "0.7084 < sqrt (pi / 6)"
proof (rule real_less_rsqrt)
  have "(0.7084 :: real)\<^sup>2 < 3.012 / 6" by (simp add: power2_eq_square)
  also have "\<dots> < pi / 6" using pi_gt_3012 by simp
  finally show "(0.7084 :: real)\<^sup>2 < pi / 6" .
qed

lemma D_fixed_finite: "Fin 3 - sqrt_d (M_PI / Fin 6) = Fin (3 - sqrt (pi / 6))"
  by (simp add: M_PI_def minus_double_def)

lemma default_not_near:
  "\<not> fabs (Fin (3 - sqrt (pi / 6)) - GTT_D_ASYMPTOTIC) < Fin 0.5"
  using sqrt_pi_6_gt by (simp add: GTT_D_ASYMPTOTIC_def fabs_def minus_double_def)

text \<open>
  C2.  \<^verbatim>\<open>rg_find_fixed_points\<close> tests one candidate, \<open>D = 3 - sqrt (pi / 6)\<close>: when
  \<open>|3 - sqrt (pi / 6) - D_asymptotic| < 0.5\<close> it returns 1 and has stored \<open>chi_P / 2\<close> in
  \<^verbatim>\<open>chi_fixed[0]\<close> and \<open>D\<close>, \<open>G = 1\<close> in \<^verbatim>\<open>state_fixed[0]\<close>; otherwise it returns 0 and
  stores nothing.  With the default \<open>D_asymptotic = 2.7916667\<close>, and so with every
  parameter set \<^verbatim>\<open>gtt_params_init\<close> leaves, it returns 0.
\<close>

theorem fixed_point_candidate:
  "rg_find_fixed_points chi_fixed state_fixed p
     = (if fabs (Fin (3 - sqrt (pi / 6)) - D_asymptotic p) < Fin 0.5
        then (1, chi_fixed(0 := chi_P p / Fin 2),
                 state_fixed(0 := (state_fixed 0)\<lparr> D := Fin (3 - sqrt (pi / 6)), G := Fin 1 \<rparr>))
        else (0, chi_fixed, state_fixed))
   \<and> rg_find_fixed_points chi_fixed state_fixed (p\<lparr> D_asymptotic := Fin 2.7916667 \<rparr>)
       = (0, chi_fixed, state_fixed)
   \<and> rg_find_fixed_points chi_fixed state_fixed (gtt_params_init p)
       = (0, chi_fixed, state_fixed)"
  using default_not_near
  by (simp add: rg_find_fixed_points_def Let_def D_fixed_finite gtt_params_init_def
        GTT_D_ASYMPTOTIC_def)

section \<open>The Friedmann equation\<close>

lemma gtt_Q_term_NaN: "gtt_Q_term NaN d p = NaN"
  by (simp add: gtt_Q_term_def Let_def)

lemma curvature_term_zero:
  "\<not> a \<le> Fin 0 \<Longrightarrow> a \<noteq> NaN \<Longrightarrow> Fin 0 / (a * a) = Fin 0"
  by (cases a) (simp_all)

lemma friedmann_code_rhs:
  assumes "\<not> a \<le> Fin 0"
  shows "(Fin 8 * M_PI * gtt_G_of_chi (log_d a) gtt / Fin 3) * rho_total a cosmo gtt
           - Fin 0 / (a * a)
           + gtt_Lambda_of_chi (log_d a) gtt / Fin 3
           + gtt_Q_term a (gtt_fractal_dimension (log_d a) gtt) gtt / Fin 3
         = friedmann_rhs a cosmo gtt"
proof (cases "a = NaN")
  case True
  then show ?thesis
    by (simp add: friedmann_rhs_def Let_def gtt_Q_term_NaN minus_double_def)
next
  case False
  then show ?thesis
    using assms by (simp add: friedmann_rhs_def Let_def curvature_term_zero)
qed

lemma friedmann_equation_rhs:
  "gtt_friedmann_equation a (cosmo, gtt)
     = (if a \<le> Fin 0 \<or> friedmann_rhs a cosmo gtt < Fin 0 then (FAILURE, None)
        else (SUCCESS, Some (sqrt_d (friedmann_rhs a cosmo gtt))))"
proof (cases "a \<le> Fin 0")
  case True
  then show ?thesis
    by (simp add: gtt_friedmann_equation_def)
next
  case False
  then show ?thesis
    using friedmann_code_rhs [OF False, of gtt cosmo]
    by (simp add: gtt_friedmann_equation_def Let_def)
qed

text \<open>
  C1.  For every scale factor and every pair of parameter structures,
  \<^verbatim>\<open>gtt_friedmann_equation\<close> returns \<^verbatim>\<open>_FAILURE_\<close> and stores nothing through \<^verbatim>\<open>H\<close>
  exactly when \<^verbatim>\<open>a <= 0\<close> or the right-hand side
  \<open>(8 pi G(chi) / 3) rho + Lambda(chi) / 3 + Q / 3\<close> is negative; in every other case it
  returns \<^verbatim>\<open>_SUCCESS_\<close> and stores the square root of the right-hand side.  The two
  codes differ, so a failure is never reported as a value.
\<close>

theorem friedmann_fails_iff:
  "gtt_friedmann_equation a (cosmo, gtt)
     = (if a \<le> Fin 0 \<or> friedmann_rhs a cosmo gtt < Fin 0 then (FAILURE, None)
        else (SUCCESS, Some (sqrt_d (friedmann_rhs a cosmo gtt))))
   \<and> FAILURE \<noteq> SUCCESS"
  by (simp add: friedmann_equation_rhs FAILURE_def SUCCESS_def)

section \<open>The age of the universe\<close>

lemma age_loop_body:
  "(case gtt_friedmann_equation a (cosmo, gtt) of
      (rc, H) \<Rightarrow>
        if rc = SUCCESS
        then (case H of Some H \<Rightarrow> age + da / (a * H) | None \<Rightarrow> NaN)
        else age)
   = (if friedmann_succeeds cosmo gtt a then age + da / (a * friedmann_H cosmo gtt a) else age)"
  by (simp add: friedmann_succeeds_def friedmann_H_def gtt_friedmann_equation_def Let_def
        FAILURE_def SUCCESS_def)

lemma age_loop_foldl:
  "i \<le> n + 1 \<Longrightarrow>
   age_loop i n da cosmo gtt age
     = foldl (+) age
         (map (\<lambda>i. da / (of_int_d i * da * friedmann_H cosmo gtt (of_int_d i * da)))
            (filter (\<lambda>i. friedmann_succeeds cosmo gtt (of_int_d i * da)) [i..n]))"
proof (induction "nat (n + 1 - i)" arbitrary: i age)
  case 0
  then have "i = n + 1" by simp
  then show ?case by (subst age_loop.simps) simp
next
  case (Suc d)
  then have le: "i \<le> n" and d: "d = nat (n + 1 - (i + 1))" by auto
  have up: "[i..n] = i # [i + 1..n]" using le by (simp add: upto_rec1)
  show ?case
    using le Suc(1)[OF d]
    by (subst age_loop.simps) (simp only: Let_def age_loop_body up, simp)
qed

text \<open>
  C6.  \<^verbatim>\<open>gtt_age_of_universe\<close> is the sum of \<open>da / (a\<^sub>i * H(a\<^sub>i))\<close> over those of the 1000
  samples \<open>a\<^sub>i = i * da\<close>, \<open>i = 1, \<dots>, 1000\<close>, \<open>da = 1/1000\<close>, at which the Friedmann
  evaluation succeeds, divided by \<open>365.25 * 24 * 3600\<close>: a failing sample adds nothing
  and stops nothing.
\<close>

theorem age_skips_failures:
  "gtt_age_of_universe cosmo gtt = age_years cosmo gtt \<and> length [1..1000 :: int] = 1000"
proof -
  have da: "Fin 1.0 / of_int_d 1000 = Fin 1 / Fin 1000"
    by (simp add: of_int_d_def)
  have yr: "Fin 365.25 * Fin 24.0 * Fin 3600.0 = Fin (365.25 * 24 * 3600)"
    by simp
  show ?thesis
    unfolding gtt_age_of_universe_def age_years_def age_sum_def Let_def age_sample_def da yr
    using age_loop_foldl [of 1 1000 "Fin 1 / Fin 1000" cosmo gtt "Fin 0"]
    by simp
qed

section \<open>The quantum-geometry term\<close>

lemma gtt_cone_curvature_finite:
  "a \<noteq> 0 \<Longrightarrow>
   gtt_cone_curvature (Fin t) (Fin a) = Fin (6 * (2 * pi * (1 - sin (t * pi / 180)) / (a * a)))"
  by (simp add: gtt_cone_curvature_def Let_def M_PI_def minus_double_def)

lemma gtt_Q_term_finite:
  assumes "a \<noteq> 0" "xi_G p = Fin x" "beta p = Fin b" "theta_max p = Fin t" "alpha p = Fin al"
  shows "gtt_Q_term (Fin a) (Fin d) p
           = Fin (x * (6 / (a * a)) * (6 / (a * a))
                  + b / (4 * pi) * (t * pi / 180)\<^sup>2
                      * (6 * (2 * pi * (1 - sin (t * pi / 180)) / (a * a)))
                  + al * (3 - d) / (a * a))"
proof -
  have p2: "pow_d (Fin (t * pi / 180)) (of_int_d 2) = Fin ((t * pi / 180)\<^sup>2)"
    by (rule pow_d_2)
  show ?thesis
    unfolding gtt_Q_term_def Let_def assms(2-5)
    using assms(1) gtt_cone_curvature_finite [OF assms(1), of t] p2
    by (simp add: M_PI_def minus_double_def)
qed

text \<open>
  C5 (as the code has it).  \<^verbatim>\<open>gtt_Q_term\<close> makes no test of \<open>a\<close> and returns a plain
  \<^verbatim>\<open>double\<close>, so it has no way to signal an error: at \<open>a = 0\<close> it returns a value that
  is not finite (an infinity or NaN), whatever \<open>D\<close> and the parameters are.
\<close>

theorem gtt_Q_term_unguarded:
  "\<not> is_finite (gtt_Q_term (Fin 0) d p)"
proof -
  have "\<not> is_finite (xi_G p * PInf * PInf)"
    by (rule mult_not_finite) (rule mult_PInf_not_finite)
  then have "\<not> is_finite (xi_G p * PInf * PInf + c + u)" for c u
    by (intro add_not_finite)
  then show ?thesis
    by (simp add: gtt_Q_term_def Let_def)
qed

text \<open>
  C5 as stated fails: with the default parameters and \<open>D = 2\<close>, the call at \<open>a = 0\<close>
  returns \<open>+infinity\<close>; nothing signals an error.
\<close>

theorem gtt_Q_term_zero_counterexample:
  "gtt_Q_term (Fin 0) (Fin 2) gtt_defaults = PInf"
proof -
  have cone: "gtt_cone_curvature (Fin 30) (Fin 0) = PInf"
    by (simp add: gtt_cone_curvature_def Let_def M_PI_def minus_double_def sin_30)
  have p2: "pow_d (Fin (pi / 6)) (of_int_d 2) = Fin ((pi / 6)\<^sup>2)"
    by (rule pow_d_2)
  show ?thesis
    unfolding gtt_Q_term_def Let_def
    by (simp add: gtt_defaults_def gtt_params_init_def GTT_THETA_MAX_def GTT_XI_G_def
          GTT_BETA_EMERGENZ_def GTT_ALPHA_ENTFALTUNG_def cone p2 minus_double_def M_PI_def)
qed

section \<open>The spectral index at the pivot\<close>








section \<open>The fractal dimension\<close>














section \<open>The distance modulus\<close>

lemma sqrt_d_not_negative: "\<not> x < Fin 0 \<Longrightarrow> \<not> sqrt_d x < Fin 0"
  by (cases x) simp_all

lemma hubble_at_z_rhs:
  "gtt_hubble_at_z z cosmo gtt
     = (if Fin 1 / (Fin 1 + z) \<le> Fin 0 \<or> friedmann_rhs (Fin 1 / (Fin 1 + z)) cosmo gtt < Fin 0
        then - Fin 1
        else sqrt_d (friedmann_rhs (Fin 1 / (Fin 1 + z)) cosmo gtt))"
  by (simp add: gtt_hubble_at_z_def Let_def friedmann_equation_rhs FAILURE_def SUCCESS_def)

lemma hubble_negative_iff_failure:
  "gtt_hubble_at_z z cosmo gtt < Fin 0
     \<longleftrightarrow> fst (gtt_friedmann_equation (Fin 1 / (Fin 1 + z)) (cosmo, gtt)) \<noteq> SUCCESS"
  using sqrt_d_not_negative [of "friedmann_rhs (Fin 1 / (Fin 1 + z)) cosmo gtt"]
  by (auto simp: hubble_at_z_rhs friedmann_equation_rhs FAILURE_def SUCCESS_def)

lemma distance_modulus_loop_char:
  "i \<le> n \<Longrightarrow>
   distance_modulus_loop i n dz cosmo gtt acc
     = (if list_ex (\<lambda>k. gtt_hubble_at_z ((of_int_d k + Fin 0.5) * dz) cosmo gtt < Fin 0) [i..n - 1]
        then None
        else Some (foldl (+) acc
               (map (\<lambda>k. dz / gtt_hubble_at_z ((of_int_d k + Fin 0.5) * dz) cosmo gtt) [i..n - 1])))"
proof (induction "nat (n - i)" arbitrary: i acc)
  case 0
  then have "i = n" by simp
  then show ?case by (subst distance_modulus_loop.simps) simp
next
  case (Suc d)
  then have lt: "i < n" and d: "d = nat (n - (i + 1))" and le: "i + 1 \<le> n" by auto
  have up: "[i..n - 1] = i # [i + 1..n - 1]" using lt by (simp add: upto_rec1)
  show ?case
    using lt Suc(1)[OF d le]
    by (subst distance_modulus_loop.simps) (simp add: Let_def up of_int_d_def)
qed

lemma distance_modulus_char:
  "gtt_distance_modulus z cosmo gtt
     = (if list_ex (\<lambda>i. dm_H z cosmo gtt i < Fin 0) [0..99] then - Fin 1
        else dm_mu z cosmo gtt)"
  using distance_modulus_loop_char [of 0 100 "z / of_int_d 100" cosmo gtt "Fin 0"]
  by (simp add: gtt_distance_modulus_def Let_def dm_H_def dm_sample_def dm_mu_def dm_integral_def)


lemma balanced_fd: "gtt_fractal_dimension (Fin x) gtt_balanced = Fin (6 - 4 * exp (x / 2))"
  by (simp add: gtt_fractal_dimension_def gtt_balanced_def Let_def minus_double_def)

lemma balanced_G:
  "gtt_G_of_chi (Fin x) gtt_balanced
     = Fin (G_Newton * exp ((3 - 4 * exp (x / 2)) * x)
              * (1 + 2 / (3 * pi) * (G_Newton * exp ((3 - 4 * exp (x / 2)) * x))))"
  by (simp add: gtt_G_of_chi_def balanced_fd Let_def minus_double_def M_PI_def G_Newton_def)
     (simp add: gtt_balanced_def)

lemma balanced_Lambda:
  "gtt_Lambda_of_chi (Fin x) gtt_balanced
     = Fin (Lambda_obs * exp ((3 - 4 * exp (x / 2)) * x / 2))"
  by (simp add: gtt_Lambda_of_chi_def balanced_fd Let_def minus_double_def Lambda_obs_def)
     (simp add: gtt_balanced_def)

lemma pow_d_powr: "0 < a \<Longrightarrow> pow_d (Fin a) (Fin y) = Fin (a powr y)"
  by simp

lemma balanced_Q:
  assumes "a \<noteq> 0"
  shows "gtt_Q_term (Fin a) (Fin d) gtt_balanced = Fin (3.455 / 10 ^ 54 * (3 - d) / (a * a))"
proof -
  have "gtt_Q_term (Fin a) (Fin d) gtt_balanced
          = Fin (0 * (6 / (a * a)) * (6 / (a * a))
                  + 0 / (4 * pi) * (30 * pi / 180)\<^sup>2
                      * (6 * (2 * pi * (1 - sin (30 * pi / 180)) / (a * a)))
                  + 3.455 / 10 ^ 54 * (3 - d) / (a * a))"
    by (rule gtt_Q_term_finite [OF assms]) (simp_all add: gtt_balanced_def)
  then show ?thesis by simp
qed

lemma balanced_rho_raw:
  assumes "0 < a"
  shows "rho_total (Fin a) cosmo_balanced gtt_balanced
           = Fin (- (6.688 / 10 ^ 4) * rho_crit_unit / (a * a * a)
                  + 4.18 / 10 ^ 5 * rho_crit_unit / (a * a * a * a)
                      * (a powr (- (7 - 4 * exp (ln a / 2))) / a powr (- 4)))"
  using assms
  by (simp add: rho_total_def Let_def cosmo_balanced_def balanced_fd M_PI_def G_Newton_def
        rho_crit_unit_def H0_unit_def power2_eq_square)

lemma balanced_friedmann_rhs:
  assumes "0 < a"
  shows "friedmann_rhs (Fin a) cosmo_balanced gtt_balanced = Fin (H2_balanced a)"
proof -
  have a0: "a \<noteq> 0" using assms by simp
  show ?thesis
    unfolding friedmann_rhs_def Let_def H2_balanced_def
    using assms
    by (simp only: log_d.simps if_True balanced_fd balanced_G balanced_Lambda
          balanced_rho_raw [OF assms] balanced_Q [OF a0])
       (simp add: M_PI_def algebra_simps)
qed

lemma exp_half_ln:
  assumes "0 < a"
  shows "exp (ln a / 2) = sqrt a"
proof -
  have "ln (sqrt a) = ln a / 2" using assms by (simp add: ln_sqrt)
  then have "exp (ln a / 2) = exp (ln (sqrt a))" by (simp only:)
  also have "\<dots> = sqrt a" using assms by simp
  finally show ?thesis .
qed

lemma exp_half_ln_quarter: "exp (ln (1 / 4) / 2) = (1 / 2 :: real)"
proof -
  have "sqrt (1 / 4 :: real) = 1 / 2" by (simp add: real_sqrt_divide)
  then show ?thesis using exp_half_ln [of "1 / 4"] by simp
qed

lemma H2_balanced_at_quarter: "H2_balanced (1 / 4) = 0"
proof -
  have y: "3 - 4 * exp (ln (1 / 4) / 2) = (1 :: real)"
    unfolding exp_half_ln_quarter by simp
  have p: "(1 / 4 :: real) powr (- (4 + 1)) / (1 / 4) powr (- 4) = 4"
  proof -
    have "(1 / 4 :: real) powr (- (4 + 1)) / (1 / 4) powr (- 4) = (1 / 4) powr (- (4 + 1) - (- 4))"
      by (simp only: powr_diff)
    also have "\<dots> = (1 / 4) powr (- 1)" by simp
    also have "\<dots> = 4" by (simp add: powr_minus)
    finally show ?thesis .
  qed
  have e1: "exp (1 * ln (1 / 4 :: real) / 2) = 1 / 2"
    using exp_half_ln_quarter by simp
  have e2: "exp (1 * ln (1 / 4 :: real)) = 1 / 4" by simp
  have rho0: "- (6.688 / 10 ^ 4) * r / (1 / 4 * (1 / 4) * (1 / 4))
              + 4.18 / 10 ^ 5 * r / (1 / 4 * (1 / 4) * (1 / 4) * (1 / 4)) * 4 = 0" for r :: real
    by simp
  have rest: "1.1056 / 10 ^ 52 * (1 / 2) / 3
         + 3.455 / 10 ^ 54 * (- 1) / (1 / 4 * (1 / 4)) / 3 = (0 :: real)"
    by simp
  have main: "(8 * pi * (g * (1 / 4) * (1 + 2 / (3 * pi) * (g * (1 / 4)))) / 3)
           * (- (6.688 / 10 ^ 4) * r / (1 / 4 * (1 / 4) * (1 / 4))
              + 4.18 / 10 ^ 5 * r / (1 / 4 * (1 / 4) * (1 / 4) * (1 / 4)) * 4)
         + 1.1056 / 10 ^ 52 * (1 / 2) / 3
         + 3.455 / 10 ^ 54 * (- 1) / (1 / 4 * (1 / 4)) / 3 = 0" for g r :: real
    unfolding rho0 using rest by simp
  show ?thesis
    unfolding H2_balanced_def Let_def y p e1 e2 Lambda_obs_def by (rule main)
qed

lemma matter_balance_algebra:
  fixes a g e q t hh c1 c2 :: real
  assumes "0 < a" "0 < g"
  shows "(8 * pi * (g * e * q) / 3)
           * (- c1 * (3 * hh\<^sup>2 / (8 * pi * g)) / (a * a * a)
              + c2 * (3 * hh\<^sup>2 / (8 * pi * g)) / (a * a * a * a) * t)
         = hh\<^sup>2 * q * (c2 * (e * t) / a ^ 4 - c1 * e / a ^ 3)"
  using assms by (simp add: field_simps power2_eq_square power4_eq_xxxx power3_eq_cube)

lemma H0_unit_bound: "3.455 / 10 ^ 56 < H0_unit\<^sup>2 * (3.5112 / 10 ^ 5)"
  by (simp add: H0_unit_def power2_eq_square)

lemma H2_balanced_pos:
  assumes "0 < a" "a \<le> 1 / 10"
  shows "0 < H2_balanced a"
proof -
  define y where "y = 3 - 4 * exp (ln a / 2)"
  define e where "e = exp (y * ln a)"
  define q where "q = 1 + 2 / (3 * pi) * (G_Newton * e)"
  define t where "t = a powr (- (4 + y)) / a powr (- 4)"
  define L where "L = Lambda_obs * exp (y * ln a / 2) / 3"
  define hh where "hh = H0_unit\<^sup>2"
  have g: "0 < G_Newton" by (simp add: G_Newton_def)
  have a4: "0 < a ^ 4" using assms(1) by simp
  have "sqrt a \<le> sqrt (1 / 4)" using assms by (simp del: real_sqrt_divide)
  moreover have "sqrt (1 / 4 :: real) = 1 / 2" by (simp add: real_sqrt_divide)
  ultimately have s_le: "exp (ln a / 2) \<le> 1 / 2"
    using exp_half_ln [OF assms(1)] by simp
  have y1: "1 \<le> y" using s_le by (simp add: y_def)
  have y3: "y \<le> 3" by (simp add: y_def)
  have e_powr: "e = a powr y" using assms(1) by (simp add: e_def powr_def)
  have e_pos: "0 < e" by (simp add: e_def)
  have e_le: "e \<le> a"
    unfolding e_powr using assms y1 by (intro powr_le_one_le) auto
  have "t = a powr (- (4 + y) - (- 4))" unfolding t_def by (simp only: powr_diff)
  then have t_eq: "t = a powr (- y)" by simp
  have "e * t = a powr (y + (- y))" unfolding e_powr t_eq by (simp only: powr_add)
  then have et: "e * t = 1" using assms(1) by simp
  have q1: "1 \<le> q" using g e_pos by (simp add: q_def)
  have L0: "0 \<le> L" by (simp add: L_def Lambda_obs_def)
  have H2: "H2_balanced a
              = (8 * pi * (G_Newton * e * q) / 3)
                  * (- (6.688 / 10 ^ 4) * (3 * H0_unit\<^sup>2 / (8 * pi * G_Newton)) / (a * a * a)
                     + 4.18 / 10 ^ 5 * (3 * H0_unit\<^sup>2 / (8 * pi * G_Newton)) / (a * a * a * a) * t)
                + L + 3.455 / 10 ^ 54 * (- y) / (a * a) / 3"
    unfolding H2_balanced_def Let_def y_def [symmetric] e_def [symmetric] q_def [symmetric]
      t_def [symmetric] L_def [symmetric] rho_crit_unit_def
    by simp
  have T1: "(8 * pi * (G_Newton * e * q) / 3)
                  * (- (6.688 / 10 ^ 4) * (3 * H0_unit\<^sup>2 / (8 * pi * G_Newton)) / (a * a * a)
                     + 4.18 / 10 ^ 5 * (3 * H0_unit\<^sup>2 / (8 * pi * G_Newton)) / (a * a * a * a) * t)
              = hh * q * (4.18 / 10 ^ 5 / a ^ 4 - 6.688 / 10 ^ 4 * e / a ^ 3)"
    unfolding hh_def
    using matter_balance_algebra [OF assms(1) g, of e q "6.688 / 10 ^ 4" H0_unit "4.18 / 10 ^ 5" t]
    by (simp add: et)
  have a2: "a * a \<le> 1 / 100"
  proof -
    have "a * a \<le> (1 / 10) * (1 / 10)" using assms by (intro mult_mono) auto
    then show ?thesis by simp
  qed
  have b1: "3.5112 / 10 ^ 5 / a ^ 4 \<le> 4.18 / 10 ^ 5 / a ^ 4 - 6.688 / 10 ^ 4 * e / a ^ 3"
  proof -
    have "6.688 / 10 ^ 4 * e * a \<le> 6.688 / 10 ^ 4 * a * a"
      using e_le assms(1) by simp
    also have "\<dots> \<le> 6.688 / 10 ^ 4 * (1 / 100)" using a2 by simp
    finally have "3.5112 / 10 ^ 5 \<le> 4.18 / 10 ^ 5 - 6.688 / 10 ^ 4 * e * a" by simp
    then have "3.5112 / 10 ^ 5 / a ^ 4 \<le> (4.18 / 10 ^ 5 - 6.688 / 10 ^ 4 * e * a) / a ^ 4"
      by (rule divide_right_mono) (use a4 in simp)
    also have "(4.18 / 10 ^ 5 - 6.688 / 10 ^ 4 * e * a) / a ^ 4
                 = 4.18 / 10 ^ 5 / a ^ 4 - 6.688 / 10 ^ 4 * e / a ^ 3"
      using assms(1) by (simp add: field_simps power4_eq_xxxx power3_eq_cube)
    finally show ?thesis .
  qed
  have hh0: "0 \<le> hh" by (simp add: hh_def)
  have b0: "0 \<le> 3.5112 / 10 ^ 5 / a ^ 4" using a4 by simp
  have b2: "hh * (3.5112 / 10 ^ 5 / a ^ 4)
              \<le> hh * q * (4.18 / 10 ^ 5 / a ^ 4 - 6.688 / 10 ^ 4 * e / a ^ 3)"
  proof -
    have "hh * (3.5112 / 10 ^ 5 / a ^ 4) = hh * 1 * (3.5112 / 10 ^ 5 / a ^ 4)" by simp
    also have "\<dots> \<le> hh * q * (4.18 / 10 ^ 5 / a ^ 4 - 6.688 / 10 ^ 4 * e / a ^ 3)"
      using hh0 q1 b1 b0 by (intro mult_mono) auto
    finally show ?thesis .
  qed
  have b3: "- (3.455 / 10 ^ 56) / a ^ 4 \<le> 3.455 / 10 ^ 54 * (- y) / (a * a) / 3"
  proof -
    have "3.455 / 10 ^ 54 * y / 3 * (a * a) \<le> 3.455 / 10 ^ 54 * 3 / 3 * (1 / 100)"
      using y3 y1 a2 assms(1) by (intro mult_mono) auto
    then have "- (3.455 / 10 ^ 56) \<le> 3.455 / 10 ^ 54 * (- y) / 3 * (a * a)" by simp
    then have "- (3.455 / 10 ^ 56) / a ^ 4 \<le> (3.455 / 10 ^ 54 * (- y) / 3 * (a * a)) / a ^ 4"
      by (rule divide_right_mono) (use a4 in simp)
    also have "(3.455 / 10 ^ 54 * (- y) / 3 * (a * a)) / a ^ 4
                 = 3.455 / 10 ^ 54 * (- y) / (a * a) / 3"
      using assms(1) by (simp add: field_simps power4_eq_xxxx)
    finally show ?thesis .
  qed
  have "0 < (hh * (3.5112 / 10 ^ 5) - 3.455 / 10 ^ 56) / a ^ 4"
    using H0_unit_bound a4 by (simp add: hh_def)
  also have "(hh * (3.5112 / 10 ^ 5) - 3.455 / 10 ^ 56) / a ^ 4
               = hh * (3.5112 / 10 ^ 5 / a ^ 4) + - (3.455 / 10 ^ 56) / a ^ 4"
    by (simp add: diff_divide_distrib)
  also have "\<dots> \<le> hh * q * (4.18 / 10 ^ 5 / a ^ 4 - 6.688 / 10 ^ 4 * e / a ^ 3)
                   + L + 3.455 / 10 ^ 54 * (- y) / (a * a) / 3"
    using b2 b3 L0 by linarith
  finally show ?thesis
    unfolding H2 T1 .
qed

lemma balanced_dm_H_600:
  assumes "0 \<le> i" "0 \<le> H2_balanced (1 / (6 * real_of_int i + 4))"
  shows "dm_H (Fin 600) cosmo_balanced gtt_balanced i
           = Fin (sqrt (H2_balanced (1 / (6 * real_of_int i + 4))))"
proof -
  let ?a = "1 / (6 * real_of_int i + 4)"
  have pos: "0 < ?a" using assms(1) by simp
  have s: "dm_sample (Fin 600) i = Fin (6 * real_of_int i + 3)"
    by (simp add: dm_sample_def of_int_d_def field_simps)
  have a: "Fin 1 / (Fin 1 + Fin (6 * real_of_int i + 3)) = Fin ?a"
    using assms(1) by (simp add: add.commute)
  show ?thesis
    unfolding dm_H_def s hubble_at_z_rhs a balanced_friedmann_rhs [OF pos]
    using pos assms(2) by simp
qed

lemma balanced_samples:
  assumes "0 \<le> i"
  shows "dm_H (Fin 600) cosmo_balanced gtt_balanced i
           = Fin (sqrt (H2_balanced (1 / (6 * real_of_int i + 4))))
         \<and> 0 \<le> H2_balanced (1 / (6 * real_of_int i + 4))
         \<and> (0 < i \<longrightarrow> 0 < H2_balanced (1 / (6 * real_of_int i + 4)))"
proof -
  let ?a = "1 / (6 * real_of_int i + 4)"
  have pos: "0 < ?a" using assms by simp
  have st: "0 < H2_balanced ?a" if "0 < i"
  proof -
    have "1 \<le> real_of_int i" using that by simp
    then have "?a \<le> 1 / 10" by (simp add: field_simps)
    then show ?thesis by (rule H2_balanced_pos [OF pos])
  qed
  have nn: "0 \<le> H2_balanced ?a"
  proof (cases "i = 0")
    case True
    then show ?thesis using H2_balanced_at_quarter by simp
  next
    case False
    then show ?thesis using st assms by simp
  qed
  show ?thesis
    using balanced_dm_H_600 [OF assms nn] nn st by simp
qed

lemma foldl_PInf: "\<forall>x\<in>set xs. is_finite x \<Longrightarrow> foldl (+) PInf xs = PInf"
proof (induction xs)
  case Nil
  then show ?case by simp
next
  case (Cons x xs)
  then obtain r where "x = Fin r" by (cases x) auto
  with Cons show ?case by simp
qed

text \<open>
  C4 (as the code has it).  \<^verbatim>\<open>gtt_distance_modulus\<close> returns its failure value \<open>-1.0\<close>
  exactly when one of the 100 midpoint samples has \<open>H(z\<^sub>i) < 0\<close>, and a sample has
  \<open>H(z\<^sub>i) < 0\<close> exactly when the Friedmann evaluation fails there (\<^verbatim>\<open>gtt_hubble_at_z\<close>
  then returns \<open>-1.0\<close>).  In every other case, so when all samples have \<open>H(z\<^sub>i) > 0\<close> but
  also when a sample has \<open>H(z\<^sub>i) = 0\<close>, it returns \<open>mu = 5 log10 (d_L [Mpc]) + 25\<close> with
  \<open>d_L\<close> the 100-step midpoint sum of \<open>dz / H(z\<^sub>i)\<close> times \<open>c (1 + z)\<close>.  Holds for every
  \<open>z\<close>, positive or not.
\<close>

theorem distance_modulus_fails_iff_negative_H:
  "gtt_distance_modulus z cosmo gtt
     = (if list_ex (\<lambda>i. dm_H z cosmo gtt i < Fin 0) [0..99] then - Fin 1
        else dm_mu z cosmo gtt)
   \<and> (dm_H z cosmo gtt i < Fin 0
      \<longleftrightarrow> fst (gtt_friedmann_equation (Fin 1 / (Fin 1 + dm_sample z i)) (cosmo, gtt)) \<noteq> SUCCESS)
   \<and> length [0..99] = 100"
  using hubble_negative_iff_failure [of "dm_sample z i" cosmo gtt]
  by (simp add: distance_modulus_char dm_H_def)

text \<open>
  C4 as stated fails: with the cosmology \<open>cosmo_balanced\<close>, the parameter set
  \<open>gtt_balanced\<close> and \<open>z = 600\<close>, the first midpoint sample is \<open>z\<^sub>0 = 3\<close>, \<open>a = 1/4\<close>,
  where the Friedmann right-hand side is 0 and the Hubble rate returned is 0; the test
  \<^verbatim>\<open>H_z < 0\<close> lets it pass, \<^verbatim>\<open>dz / H_z\<close> is \<open>+infinity\<close>, the other 99 samples have a
  positive Hubble rate, and the function returns \<open>+infinity\<close>, not its failure value
  \<open>-1.0\<close>.
\<close>

theorem distance_modulus_zero_H_counterexample:
  "dm_H (Fin 600) cosmo_balanced gtt_balanced 0 = Fin 0
   \<and> gtt_distance_modulus (Fin 600) cosmo_balanced gtt_balanced = PInf"
proof -
  let ?H = "dm_H (Fin 600) cosmo_balanced gtt_balanced"
  have H0: "?H 0 = Fin 0"
    using balanced_samples [of 0] H2_balanced_at_quarter by simp
  have no_fail: "\<not> list_ex (\<lambda>i. ?H i < Fin 0) [0..99]"
  proof -
    have "\<not> ?H i < Fin 0" if "0 \<le> i" for i
      using balanced_samples [OF that] by simp
    then show ?thesis by (auto simp: list_ex_iff)
  qed
  have fin: "\<forall>x\<in>set (map (\<lambda>i. (Fin 600 / of_int_d 100) / ?H i) [1..99]). is_finite x"
  proof -
    have "is_finite ((Fin 600 / of_int_d 100) / ?H i)" if "1 \<le> i" for i
    proof -
      have "0 \<le> i" "0 < i" using that by auto
      then show ?thesis
        using balanced_samples [of i] by (simp add: of_int_d_def)
    qed
    then show ?thesis by auto
  qed
  have up: "[0..99] = 0 # [1..99]" by (simp add: upto_rec1)
  have "dm_integral (Fin 600) cosmo_balanced gtt_balanced = PInf"
    unfolding dm_integral_def up
    using foldl_PInf [OF fin] H0 by (simp add: of_int_d_def)
  then have "dm_mu (Fin 600) cosmo_balanced gtt_balanced = PInf"
    by (simp add: dm_mu_def)
  then show ?thesis
    using H0 no_fail by (simp add: distance_modulus_char)
qed

section \<open>Further properties\<close>

text \<open>\<^verbatim>\<open>gtt_baryon_asymmetry\<close> tests nothing: with \<open>xi_G = +infinity\<close> the factor is
  \<open>+infinity\<close>, the normalisation \<open>6.1e-10 / factor\<close> is 0, and the product returned is
  NaN.\<close>

theorem baryon_asymmetry_infinite_xi_G:
  "gtt_baryon_asymmetry (gtt_defaults\<lparr> xi_G := PInf \<rparr>) = NaN"
  by (simp add: gtt_baryon_asymmetry_def Let_def gtt_defaults_simps M_PI_def sin_30)

lemma rg_flow_loop_below:
  "int j < i \<Longrightarrow> snd (rg_flow_loop i n ca p (cur, so)) j = so j"
proof (induction i n ca p "(cur, so)" arbitrary: cur so rule: rg_flow_loop.induct)
  case (1 i n ca p cur so)
  show ?case
  proof (cases "i < n")
    case False
    then show ?thesis by (subst rg_flow_loop.simps) simp
  next
    case True
    let ?s = "snd (rg_integrate cur (ca (nat (i - 1))) (ca (nat i)) p)"
    let ?so = "so(nat i := ?s)"
    have "snd (rg_flow_loop (i + 1) n ca p (?so (nat i), ?so)) j = ?so j"
      by (rule 1(1)[OF True refl refl]) (use 1(2) in simp)
    moreover have "?so j = so j" using 1(2) by auto
    ultimately show ?thesis using True
      by (subst rg_flow_loop.simps) (simp add: Let_def)
  qed
qed

text \<open>
  \<^verbatim>\<open>rg_flow_full\<close> returns 0 and leaves the Planck-scale initial condition in
  \<^verbatim>\<open>states_out[0]\<close>, whatever \<^verbatim>\<open>n_points\<close> and the checkpoints are.
\<close>

theorem rg_flow_full_first_entry:
  "fst (rg_flow_full chi_array n_points states_out p) = 0
   \<and> snd (rg_flow_full chi_array n_points states_out p) 0 = rg_init_planck p"
  using rg_flow_loop_below [of 0 1 n_points chi_array p "rg_init_planck p"
                              "states_out(0 := rg_init_planck p)"]
  by (simp add: rg_flow_full_def Let_def)

lemma is_finite_iff: "is_finite x \<longleftrightarrow> (\<exists>r. x = Fin r)"
  by (cases x) simp_all

lemma pow_d_3_finite: "is_finite (pow_d (Fin x) (of_int_d 3))"
  by (simp add: of_int_d_def)

lemma zero_times_finite: "is_finite x \<Longrightarrow> Fin 0 * x = Fin 0"
  by (cases x) simp_all

lemma rg_beta_G_finite:
  "is_finite (G s) \<Longrightarrow> is_finite (D s) \<Longrightarrow> is_finite (beta p) \<Longrightarrow> is_finite (rg_beta_G s p)"
  by (auto simp: is_finite_iff rg_beta_G_def Let_def M_PI_def minus_double_def)

lemma rg_beta_D_finite:
  "is_finite (D s) \<Longrightarrow> chi_P p = Fin c \<Longrightarrow> c \<noteq> 0 \<Longrightarrow> is_finite (rg_beta_D s (Fin x) p)"
  using pow_d_2 by (auto simp: is_finite_iff rg_beta_D_def Let_def M_PI_def minus_double_def)

lemma rg_beta_Lambda_finite:
  "is_finite (G s) \<Longrightarrow> is_finite (D s) \<Longrightarrow> is_finite (Lambda s) \<Longrightarrow> is_finite (xi_G p)
     \<Longrightarrow> is_finite (rg_beta_Lambda s p)"
  by (auto simp: is_finite_iff rg_beta_Lambda_def Let_def M_PI_def minus_double_def)


lemma pow_d_Fin_2: "pow_d (Fin x) (Fin 2) = Fin (x\<^sup>2)"
  using pow_d_2 [of x] by (simp add: of_int_d_def)

lemma pow_d_Fin_3: "pow_d (Fin x) (Fin 3) = Fin (x ^ 3)"
proof -
  have "0 < x \<Longrightarrow> x powr 3 = x ^ 3"
    using powr_numeral [of x "num.Bit1 num.One"] by simp
  moreover have "x < 0 \<Longrightarrow> - ((- x) powr 3) = x ^ 3"
    using powr_numeral [of "- x" "num.Bit1 num.One"] by simp
  ultimately show ?thesis by simp
qed


lemma add_finite: "is_finite x \<Longrightarrow> is_finite y \<Longrightarrow> is_finite (x + y)"
  by (auto simp: is_finite_iff)

lemma mult_finite: "is_finite x \<Longrightarrow> is_finite y \<Longrightarrow> is_finite (x * y)"
  by (auto simp: is_finite_iff)

lemma upd3_nth3_same: "upd3 a i (nth3 a i) = a"
  by (cases a) simp

lemma rg_beta_gauge_at_finite:
  assumes "is_finite (D s)" "array3_finite (g_gauge s)" "is_finite (beta p)"
  shows "is_finite (rg_beta_gauge_at s p i)"
proof -
  obtain g0 g1 g2 where gg: "g_gauge s = Array3 (Fin g0) (Fin g1) (Fin g2)"
    using assms(2) by (cases "g_gauge s") (auto simp: is_finite_iff)
  obtain d b where f: "D s = Fin d" "beta p = Fin b"
    using assms(1,3) by (auto simp: is_finite_iff)
  show ?thesis
    by (simp add: rg_beta_gauge_at_def Let_def gg f beta_g1_SM_def beta_g2_SM_def beta_g3_SM_def
          M_PI_def minus_double_def of_int_d_def pow_d_Fin_3 del: pow_d.simps)
qed

lemma rk4_step_zero:
  assumes "rg_state_finite s" "is_finite (beta p)" "is_finite (xi_G p)"
    and "chi_P p = Fin c" "c \<noteq> 0"
  shows "rk4_step s (Fin x) (Fin 0) p = s"
proof -
  have fs: "is_finite (G s)" "is_finite (D s)" "is_finite (Lambda s)" "array3_finite (g_gauge s)"
    using assms(1) by (simp_all add: rg_state_finite_def)
  have kG: "is_finite (rg_beta_G s p)"
    by (rule rg_beta_G_finite [OF fs(1,2) assms(2)])
  have kD: "is_finite (rg_beta_D s (Fin x) p)"
    by (rule rg_beta_D_finite [OF fs(2) assms(4,5)])
  have kL: "is_finite (rg_beta_Lambda s p)"
    by (rule rg_beta_Lambda_finite [OF fs(1,2,3) assms(3)])
  have kg: "is_finite (rg_beta_gauge_at s p i)" for i
    by (rule rg_beta_gauge_at_finite [OF fs(2,4) assms(2)])
  have z: "Fin 0 * k = Fin 0" if "is_finite k" for k
    using that by (rule zero_times_finite)
  have kg': "is_finite (nth3 (rg_beta_gauge s p) i)" for i
    by (simp add: rg_beta_gauge_def kg)
  have temp: "gauge_add (Fin 0) (rg_beta_gauge s p) s = s"
    by (simp add: gauge_add_def z [OF kg'] upd3_nth3_same)
  have sumG: "is_finite (rg_beta_G s p + Fin 2 * rg_beta_G s p + Fin 2 * rg_beta_G s p
                          + rg_beta_G s p)"
    by (intro add_finite mult_finite kG) simp_all
  have sumD: "is_finite (rg_beta_D s (Fin x) p + Fin 2 * rg_beta_D s (Fin x) p
                          + Fin 2 * rg_beta_D s (Fin x) p + rg_beta_D s (Fin x) p)"
    by (intro add_finite mult_finite kD) simp_all
  have sumL: "is_finite (rg_beta_Lambda s p + Fin 2 * rg_beta_Lambda s p
                          + Fin 2 * rg_beta_Lambda s p + rg_beta_Lambda s p)"
    by (intro add_finite mult_finite kL) simp_all
  have sumg: "is_finite (nth3 (rg_beta_gauge s p) i + Fin 2 * nth3 (rg_beta_gauge s p) i
                          + Fin 2 * nth3 (rg_beta_gauge s p) i + nth3 (rg_beta_gauge s p) i)" for i
    by (intro add_finite mult_finite kg') simp_all
  show ?thesis
    by (simp add: rk4_step_def Let_def of_int_d_def z [OF kG] z [OF kD] z [OF kL] temp
          z [OF sumG] z [OF sumD] z [OF sumL] z [OF sumg] upd3_nth3_same)
qed

lemma rg_integrate_loop_zero:
  assumes "rg_state_finite s" "is_finite (beta p)" "is_finite (xi_G p)"
    and "chi_P p = Fin c" "c \<noteq> 0"
  shows "rg_integrate_loop i n (Fin x) (Fin 0) p s = s"
proof (induction "nat (n - i)" arbitrary: i)
  case 0
  then show ?case by (subst rg_integrate_loop.simps) simp
next
  case (Suc d)
  then have lt: "i < n" and d: "d = nat (n - (i + 1))" by auto
  have "Fin x + of_int_d i * Fin 0 = Fin x" by (simp add: of_int_d_def)
  then show ?case
    using lt Suc(1)[OF d] rk4_step_zero [OF assms, of x]
    by (subst rg_integrate_loop.simps) simp
qed

text \<open>
  Integrating over an interval of length zero returns the state unchanged, when the
  state, \<^verbatim>\<open>beta\<close> and \<^verbatim>\<open>xi_G\<close> are finite and \<^verbatim>\<open>chi_P\<close> is finite and not zero: every
  one of the 1000 steps has step size 0 and finite slopes.
\<close>

theorem rg_integrate_zero_interval:
  assumes "rg_state_finite s" "is_finite (beta p)" "is_finite (xi_G p)" "chi_P p = Fin c" "c \<noteq> 0"
  shows "rg_integrate s (Fin x) (Fin x) p = (0, s)"
  using rg_integrate_loop_zero [OF assms, of 0 1000 x]
  by (simp add: rg_integrate_def Let_def minus_double_def of_int_d_def)

theorem rg_integrate_zero_interval_witness:
  "rg_integrate (rg_init_planck gtt_defaults) (Fin 5) (Fin 5) gtt_defaults
     = (0, rg_init_planck gtt_defaults)"
proof -
  have s: "rg_state_finite (rg_init_planck gtt_defaults)"
    by (simp add: rg_state_finite_def rg_init_planck_def)
  have b: "is_finite (beta gtt_defaults)" and x: "is_finite (xi_G gtt_defaults)"
    by (simp_all add: gtt_defaults_simps)
  have c: "ln (1.220910 * 10 ^ 19) \<noteq> (0 :: real)" by simp
  show ?thesis
    by (rule rg_integrate_zero_interval [OF s b x gtt_defaults_simps(6) c])
qed

text \<open>
  \<^verbatim>\<open>gtt_hubble_at_z\<close> evaluates the Friedmann equation at \<open>a = 1 / (1 + z)\<close> and
  propagates its failure as \<open>-1.0\<close>; on success it returns the Hubble rate stored, which
  is never negative, so a negative result means failure.
\<close>

theorem hubble_at_z_propagates_failure:
  "gtt_hubble_at_z z cosmo gtt
     = (if fst (gtt_friedmann_equation (Fin 1 / (Fin 1 + z)) (cosmo, gtt)) = SUCCESS
        then friedmann_H cosmo gtt (Fin 1 / (Fin 1 + z))
        else - Fin 1)
   \<and> (gtt_hubble_at_z z cosmo gtt < Fin 0
        \<longleftrightarrow> fst (gtt_friedmann_equation (Fin 1 / (Fin 1 + z)) (cosmo, gtt)) = FAILURE)"
  using hubble_negative_iff_failure [of z cosmo gtt]
  by (simp add: hubble_at_z_rhs friedmann_equation_rhs friedmann_H_def FAILURE_def SUCCESS_def)

end
